theory Spec2Isabelle
  imports Main "HOL-Library.Sublist"
begin

section \<open>Errors and results\<close>

text \<open>
  A thrown exception or a rejected promise is a value: \<open>Inl\<close> of the error.
  \<open>TypeError\<close> is what the JavaScript runtime throws when a method is called on
  \<open>undefined\<close>; \<open>AbilityNotFound\<close> carries the capability's name and the actor's
  name; \<open>Failure\<close> is any other error of a collaborator, with its message.
\<close>

datatype error =
    TypeError string
  | AbilityNotFound string string
  | Failure string

type_synonym 'x result = "error + 'x"

section \<open>Descriptions from template literals: \<open>the\<close>\<close>

text \<open>
  \<open>DescriptionFormattingOptions\<close>: the only option the documentation of \<open>the\<close> names is
  \<open>maxLength\<close>. An absent \<open>options\<close> argument (\<open>undefined\<close>) is \<open>None\<close>.
\<close>

record DescriptionFormattingOptions =
  maxLength :: "nat option"

text \<open>
  A computation that an actor \<open>'a\<close> performs in a world \<open>'w\<close>: the world stands for
  everything a placeholder or the actor reads or changes while it is resolved (abilities,
  pages, counters). It returns the string or the error, and the world it leaves.
\<close>

type_synonym ('a, 'w) resolver = "'a \<Rightarrow> 'w \<Rightarrow> string result \<times> 'w"

text \<open>
  \<open>Question.about(description, body)\<close>: a question is its description (what
  \<open>toString()\<close> gives) and its body.
\<close>

record ('a, 'w) question =
  description :: string
  body :: "('a, 'w) resolver"

text \<open>
  A placeholder of the template is either an instance of \<open>Describable\<close>, with its
  \<open>describedBy\<close> method, or any other value \<open>'v\<close>.
\<close>

datatype ('a, 'w, 'v) parameter =
    Describable "('a, 'w) resolver"
  | Other 'v

text \<open>
  What \<open>templateToQuestion\<close> calls and the source files do not hold, taken as parameters:
  \<open>formattedValue options p\<close> is the question \<open>Question.formattedValue(options).of(p)\<close>,
  and \<open>answer actor q\<close> is \<open>actor.answer(q)\<close>.
\<close>

record ('a, 'w, 'v) collaborators =
  formattedValue :: "DescriptionFormattingOptions option \<Rightarrow> ('a, 'w, 'v) parameter \<Rightarrow> ('a, 'w) question"
  answer :: "'a \<Rightarrow> ('a, 'w) question \<Rightarrow> 'w \<Rightarrow> string result \<times> 'w"

text \<open>
  \<open>interpolate\<close>: \<open>templates.flatMap((template, i) => i < parameters.length
  ? [template, parameters[i]] : [template]).join('')\<close>.
\<close>

definition interpolate :: "string list \<Rightarrow> string list \<Rightarrow> string" where
  "interpolate templates parameters =
     concat (concat (map (\<lambda>(i, template).
         if i < length parameters then [template, parameters ! i] else [template])
       (enumerate 0 templates)))"

text \<open>
  Modelled from the spec: \<open>asyncMap\<close> is imported from \<open>'../../io'\<close>, which is not
  among the source files. It maps the items in order, one after the other, each mapping
  awaited before the next starts; the results keep the items' order and the first
  rejection rejects the whole.
\<close>

fun asyncMap :: "('x \<Rightarrow> 'w \<Rightarrow> 'y result \<times> 'w) \<Rightarrow> 'x list \<Rightarrow> 'w \<Rightarrow> 'y list result \<times> 'w" where
  "asyncMap f [] w = (Inr [], w)"
| "asyncMap f (x # xs) w =
     (case f x w of
        (Inl e, w') \<Rightarrow> (Inl e, w')
      | (Inr y, w') \<Rightarrow>
          (case asyncMap f xs w' of
             (Inl e, w'') \<Rightarrow> (Inl e, w'')
           | (Inr ys, w'') \<Rightarrow> (Inr (y # ys), w'')))"

text \<open>
  The callback of \<open>asyncMap\<close> in \<open>templateToQuestion\<close>:
  \<open>parameter instanceof Describable ? parameter.describedBy(actor)
  : actor.answer(Question.formattedValue(options).of(parameter))\<close>.
\<close>

fun describeParameter ::
  "('a, 'w, 'v) collaborators \<Rightarrow> DescriptionFormattingOptions option \<Rightarrow> 'a \<Rightarrow>
   ('a, 'w, 'v) parameter \<Rightarrow> 'w \<Rightarrow> string result \<times> 'w" where
  "describeParameter C options actor (Describable describedBy) w = describedBy actor w"
| "describeParameter C options actor (Other v) w =
     answer C actor (formattedValue C options (Other v)) w"

definition templateToQuestion ::
  "('a, 'w, 'v) collaborators \<Rightarrow> string list \<Rightarrow> ('a, 'w, 'v) parameter list \<Rightarrow>
   DescriptionFormattingOptions option \<Rightarrow> ('a, 'w) question" where
  "templateToQuestion C templates parameters options =
     \<lparr> description =
         interpolate templates
           (map (\<lambda>parameter. description (formattedValue C options parameter)) parameters),
       body = (\<lambda>actor w.
         case asyncMap (describeParameter C options actor) parameters w of
           (Inl e, w') \<Rightarrow> (Inl e, w')
         | (Inr descriptions, w') \<Rightarrow> (Inr (interpolate templates descriptions), w')) \<rparr>"

text \<open>
  The first argument of \<open>the\<close> is, by its two overloads, the formatting options or the
  strings of a template literal.
\<close>

datatype firstArgument =
    OptionsObject (optionsOf: DescriptionFormattingOptions)
  | TemplateStringsArray (stringsOf: "string list")

text \<open>
  Modelled from the spec: \<open>ValueInspector.isPlainObject\<close> is imported from
  \<open>'../../io'\<close>, which is not among the source files; it holds of a plain object and
  not of an array.
\<close>

fun isPlainObject :: "firstArgument \<Rightarrow> bool" where
  "isPlainObject (OptionsObject options) = True"
| "isPlainObject (TemplateStringsArray templates) = False"

text \<open>
  \<open>the(...args)\<close>: \<open>ValueInspector.isPlainObject(args[0]) ? (templates, ...parameters)
  => templateToQuestion(templates, parameters, args[0]) : templateToQuestion(args[0],
  args.slice(1))\<close>. The result is a tag function or a question; \<open>rest\<close> is
  \<open>args.slice(1)\<close>.
\<close>

datatype ('a, 'w, 'v) theResult =
    TagFunction "string list \<Rightarrow> ('a, 'w, 'v) parameter list \<Rightarrow> ('a, 'w) question"
  | Built "('a, 'w) question"

definition the_fn ::
  "('a, 'w, 'v) collaborators \<Rightarrow> firstArgument \<Rightarrow> ('a, 'w, 'v) parameter list \<Rightarrow>
   ('a, 'w, 'v) theResult" where
  "the_fn C arg0 rest =
     (if isPlainObject arg0
      then TagFunction (\<lambda>templates parameters.
             templateToQuestion C templates parameters (Some (optionsOf arg0)))
      else Built (templateToQuestion C (stringsOf arg0) rest None))"

text \<open>
  The description the specification asks for, in its own words:
  \<open>templates[0] + d1 + templates[1] + ... + d(k-1) + templates[k-1]\<close>, for \<open>k\<close>
  literal segments and \<open>k - 1\<close> resolved placeholders.
\<close>

fun segmentsInterposed :: "string list \<Rightarrow> string list \<Rightarrow> string" where
  "segmentsInterposed (t # ts) (d # ds) = t @ d @ segmentsInterposed ts ds"
| "segmentsInterposed [t] [] = t"
| "segmentsInterposed ts ds = concat ts"

text \<open>
  The last equation covers the shapes a template literal never has (no segment at all,
  or more segments than placeholders and one): the segments alone.
\<close>

subsection \<open>The value-formatting strategy\<close>

text \<open>
  Modelled from the spec: \<open>Question.formattedValue\<close> and \<open>Actor.answer\<close> are not among the
  source files. A placeholder that is not \<open>Describable\<close> is resolved as an Answerable
  (awaited if it is a pending value) and the default value-formatting strategy is
  applied: strings are quoted, plain objects are JSON-rendered, a custom string
  conversion is called if present, and a value flagged as sensitive is replaced by a
  fixed redaction marker. The renderings are those of the examples in the documentation
  of \<open>the\<close>.
\<close>

datatype jsValue =
    Str string
  | Object "(string \<times> jsValue) list"
  | WithToString string
  | Masked jsValue

datatype answerable =
    Now jsValue
  | Pending "jsValue result"

definition doubleQuote :: string where
  "doubleQuote = [CHR 0x22]"

definition redactionMarker :: string where
  "redactionMarker = ''[a masked value]''"

fun stringified :: "jsValue \<Rightarrow> string"
  and stringifiedFields :: "(string \<times> jsValue) list \<Rightarrow> string" where
  "stringified (Str s) = doubleQuote @ s @ doubleQuote"
| "stringified (Object entries) = ''{ '' @ stringifiedFields entries @ '' }''"
| "stringified (WithToString s) = s"
| "stringified (Masked v) = redactionMarker"
| "stringifiedFields [] = []"
| "stringifiedFields [(k, v)] = k @ '': '' @ stringified v"
| "stringifiedFields ((k, v) # entry # entries) =
     k @ '': '' @ stringified v @ '', '' @ stringifiedFields (entry # entries)"

text \<open>
  The options configure the strategy (a truncation length, for one); how is not in the
  source files, so it is the parameter \<open>configured\<close>. Without options the rendering is
  displayed in full.
\<close>

definition formatted ::
  "(DescriptionFormattingOptions \<Rightarrow> string \<Rightarrow> string) \<Rightarrow>
   DescriptionFormattingOptions option \<Rightarrow> jsValue \<Rightarrow> string" where
  "formatted configured options v =
     (case options of None \<Rightarrow> stringified v | Some opts \<Rightarrow> configured opts (stringified v))"

fun awaited :: "answerable \<Rightarrow> jsValue result" where
  "awaited (Now v) = Inr v"
| "awaited (Pending outcome) = outcome"

text \<open>
  Modelled from the spec: the body of \<open>Question.formattedValue(options).of(p)\<close>, for a
  \<open>p\<close> that is not \<open>Describable\<close>: \<open>p\<close> is awaited if it is pending, and formatted.
\<close>

definition formattedValueOf ::
  "(DescriptionFormattingOptions \<Rightarrow> string \<Rightarrow> string) \<Rightarrow>
   DescriptionFormattingOptions option \<Rightarrow> answerable \<Rightarrow> ('a, 'w) resolver" where
  "formattedValueOf configured options p =
     (\<lambda>actor w. case awaited p of
        Inl e \<Rightarrow> (Inl e, w)
      | Inr v \<Rightarrow> (Inr (formatted configured options v), w))"

text \<open>
  Modelled from the spec: \<open>Actor.answer\<close>, on a question: a question is a function of an
  actor to a value, and the actor answers it by running it with itself as the context.
\<close>

definition answerQuestion :: "'a \<Rightarrow> ('a, 'w) question \<Rightarrow> 'w \<Rightarrow> string result \<times> 'w" where
  "answerQuestion actor q w = body q actor w"

section \<open>Abilities: \<open>BrowseTheWeb.as\<close>\<close>

text \<open>
  An actor has a name and at most one ability per capability type; the abilities are
  keyed by the name of the capability type.
\<close>

record 'b Actor =
  actorName :: string
  abilities :: "string \<rightharpoonup> 'b"

text \<open>
  Modelled from the spec: \<open>Actor.abilityTo\<close> is not among the source files. It returns
  the registered instance, or fails with an "ability not found" error naming the missing
  capability and the actor's name.
\<close>

definition abilityTo :: "'b Actor \<Rightarrow> string \<Rightarrow> 'b result" where
  "abilityTo actor capabilityType =
     (case abilities actor capabilityType of
        None \<Rightarrow> Inl (AbilityNotFound capabilityType (actorName actor))
      | Some ability \<Rightarrow> Inr ability)"

text \<open>\<open>BrowseTheWeb.as(actor)\<close>: \<open>return actor.abilityTo(BrowseTheWeb)\<close>.\<close>

definition BrowseTheWeb_as :: "'b Actor \<Rightarrow> 'b result" where
  "BrowseTheWeb_as actor = abilityTo actor ''BrowseTheWeb''"

section \<open>The Photographer\<close>

text \<open>
  Of the ability to browse the web the Photographer calls \<open>takeScreenshot()\<close> only: the
  field is what that promise settles to, the screenshot's data or a rejection.
\<close>

record BrowseTheWeb =
  takeScreenshot :: "string result"

text \<open>
  The outlet is a collaborator: \<open>sent\<close> lists the calls of \<open>sendPicture(filename, data)\<close>
  it has received, and \<open>stored filename data\<close> is what the promise of such a call
  settles to, the path of the stored picture or a rejection.
\<close>

record Outlet =
  sent :: "(string \<times> string) list"
  stored :: "string \<Rightarrow> string \<Rightarrow> string result"

definition sendPicture :: "Outlet \<Rightarrow> string \<Rightarrow> string \<Rightarrow> string result \<times> Outlet" where
  "sendPicture outlet filename data =
     (stored outlet filename data, outlet\<lparr>sent := sent outlet @ [(filename, data)]\<rparr>)"

datatype 's Screenshot = Screenshot 's string

text \<open>
  \<open>Md5.hashStr\<close> belongs to the library \<open>ts-md5\<close>; it is the parameter \<open>hashStr\<close>.
\<close>

definition filenameFor :: "(string \<Rightarrow> string) \<Rightarrow> string \<Rightarrow> string" where
  "filenameFor hashStr data = hashStr data @ ''.png''"

definition saveScreenshot ::
  "(string \<Rightarrow> string) \<Rightarrow> Outlet \<Rightarrow> string \<Rightarrow> string result \<times> Outlet" where
  "saveScreenshot hashStr outlet data = sendPicture outlet (filenameFor hashStr data) data"

text \<open>
  \<open>takeAPictureOf\<close>: \<open>BrowseTheWeb.as(actor).takeScreenshot().then(saveScreenshot)
  .then(path => new Screenshot(step, path))\<close>. The result is what the returned promise
  settles to (or the error \<open>BrowseTheWeb.as\<close> throws), with the outlet as the call
  leaves it.
\<close>

definition takeAPictureOf ::
  "(string \<Rightarrow> string) \<Rightarrow> Outlet \<Rightarrow> BrowseTheWeb Actor \<Rightarrow> 's \<Rightarrow>
   's Screenshot result \<times> Outlet" where
  "takeAPictureOf hashStr outlet actor step =
     (case BrowseTheWeb_as actor of
        Inl e \<Rightarrow> (Inl e, outlet)
      | Inr browser \<Rightarrow>
          (case takeScreenshot browser of
             Inl e \<Rightarrow> (Inl e, outlet)
           | Inr data \<Rightarrow>
               (case saveScreenshot hashStr outlet data of
                  (Inl e, outlet') \<Rightarrow> (Inl e, outlet')
                | (Inr path, outlet') \<Rightarrow> (Inr (Screenshot step path), outlet'))))"

section \<open>The PlaywrightStepReporter\<close>

subsection \<open>Domain events\<close>

text \<open>
  A \<open>CorrelationId\<close>, a \<open>Name\<close> and a \<open>Description\<close> are their string \<open>value\<close>; a
  \<open>Timestamp\<close> is a number. The events are the classes \<open>notifyOf\<close> tests with
  \<open>instanceof\<close>; each carries the id of its activity or operation and the fields
  \<open>notifyOf\<close> reads or the reporter's own constructor calls give. No class of these
  extends another, so an event is of exactly one. \<open>OtherEvent\<close> is any other domain
  event. \<open>AsyncOperationAttempted\<close> has the name, the description, the correlation id and
  the timestamp; \<open>AsyncOperationFailed\<close> the error, the correlation id and the timestamp;
  \<open>ActivityRelatedArtifactGenerated\<close> the activity's id, the artifact's name and the
  artifact.
\<close>

type_synonym CorrelationId = string
type_synonym Timestamp = nat

record FileSystemLocation =
  path :: string
  line :: "nat option"
  column :: "nat option"

record ActivityDetails =
  detailsName :: string
  detailsLocation :: "FileSystemLocation option"

datatype Outcome =
    ExecutionSuccessful
  | ProblemIndication error
  | ExecutionSkipped

datatype Artifact =
    Photo string
  | OtherArtifact string

record Tag =
  tagType :: string
  tagName :: string

datatype DomainEvent =
    TaskStarts CorrelationId ActivityDetails
  | InteractionStarts CorrelationId ActivityDetails
  | TaskFinished CorrelationId ActivityDetails Outcome
  | InteractionFinished CorrelationId ActivityDetails Outcome
  | AsyncOperationAttempted string string CorrelationId Timestamp
  | AsyncOperationCompleted CorrelationId Timestamp
  | AsyncOperationAborted CorrelationId Timestamp
  | AsyncOperationFailed error CorrelationId Timestamp
  | ActivityRelatedArtifactGenerated CorrelationId string Artifact
  | SceneTagged Tag
  | OtherEvent string

subsection \<open>The stage and the test runner\<close>

text \<open>
  Modelled from the spec: the \<open>Stage\<close> is not among the source files. It holds the
  current time and receives every announced event; \<open>announced\<close> lists the events in the
  order of their announcement. The delivery of an announced event to the crew members is
  the stage's work and is not part of this model.
\<close>

record Stage =
  announced :: "DomainEvent list"
  currentTime :: Timestamp

definition announce :: "DomainEvent \<Rightarrow> Stage \<Rightarrow> Stage" where
  "announce event stage = stage\<lparr>announced := announced stage @ [event]\<rparr>"

text \<open>
  Playwright's \<open>TestInfo\<close>, as far as the reporter uses it: the steps \<open>_addStep\<close> has
  created, each with the results \<open>complete\<close> was called with (the optional error of each
  call, in order); the attachments; the annotations. A step is referred to by its
  position among the created steps.
\<close>

record Location =
  locationFile :: string
  locationLine :: "nat option"
  locationColumn :: "nat option"

record TestStepInternal =
  title :: string
  category :: string
  canHaveChildren :: bool
  forceNoParent :: bool
  location :: "Location option"
  completions :: "error option list"

record Attachment =
  attachmentName :: string
  base64Body :: string
  contentType :: string

record TestInfo =
  addedSteps :: "TestStepInternal list"
  attachments :: "Attachment list"
  annotations :: "(string \<times> string) list"

text \<open>
  A promise returned by \<open>testInfo.attach\<close> that has not settled yet, together with the
  correlation id the callback given to its \<open>then\<close> has closed over.
\<close>

record PendingAttachment =
  attaching :: Attachment
  thenAnnounces :: CorrelationId

datatype AttachOutcome =
    Fulfilled
  | Rejected error

text \<open>
  The reporter: the map \<open>steps\<close>, \<open>testInfo\<close> and the optional \<open>stage\<close> are the fields
  of the class. The promises in flight and the rejections no handler has taken belong
  to the runtime; they are part of the state because the reporter's callbacks hang on
  them.
\<close>

record PlaywrightStepReporter =
  steps :: "string \<rightharpoonup> nat"
  testInfo :: TestInfo
  stage :: "Stage option"
  pendingAttachments :: "PendingAttachment list"
  unhandledRejections :: "error list"

text \<open>
  What the code outside the class gives during one notification: the module constant
  \<open>genericPathToPhotographer\<close>, and the id \<open>CorrelationId.create()\<close> returns.
\<close>

record Externals =
  genericPathToPhotographer :: string
  createdId :: CorrelationId

definition PhotographerName :: string where
  "PhotographerName = ''Photographer''"

definition reporterName :: string where
  "reporterName = ''PlaywrightStepReporter''"

definition singleQuote :: string where
  "singleQuote = [CHR 0x27]"

definition assignedTo :: "Stage \<Rightarrow> PlaywrightStepReporter \<Rightarrow> PlaywrightStepReporter" where
  "assignedTo s r = r\<lparr>stage := Some s\<rparr>"

definition createStep :: "ActivityDetails \<Rightarrow> string \<Rightarrow> TestInfo \<Rightarrow> nat \<times> TestInfo" where
  "createStep activityDetails type ti =
     (length (addedSteps ti),
      ti\<lparr>addedSteps := addedSteps ti @
        [\<lparr> title = detailsName activityDetails,
           category = ''serenity-js:'' @ type,
           canHaveChildren = True,
           forceNoParent = False,
           location =
             (case detailsLocation activityDetails of
                None \<Rightarrow> None
              | Some l \<Rightarrow> Some \<lparr> locationFile = path l, locationLine = line l, locationColumn = column l \<rparr>),
           completions = [] \<rparr>]\<rparr>)"

text \<open>\<open>step.complete(result)\<close>, on the step at position \<open>i\<close>.\<close>

definition complete :: "nat \<Rightarrow> error option \<Rightarrow> TestInfo \<Rightarrow> TestInfo" where
  "complete i result ti =
     (if i < length (addedSteps ti)
      then ti\<lparr>addedSteps := (addedSteps ti)
             [i := (addedSteps ti ! i)\<lparr>completions := completions (addedSteps ti ! i) @ [result]\<rparr>]\<rparr>
      else ti)"

text \<open>\<open>this.steps.set(id, this.createStep(details, type))\<close>.\<close>

definition setStep ::
  "CorrelationId \<Rightarrow> ActivityDetails \<Rightarrow> string \<Rightarrow> PlaywrightStepReporter \<Rightarrow> PlaywrightStepReporter" where
  "setStep correlationId activityDetails type r =
     (case createStep activityDetails type (testInfo r) of
        (step, ti) \<Rightarrow> r\<lparr>steps := (steps r)(correlationId \<mapsto> step), testInfo := ti\<rparr>)"

text \<open>
  \<open>notifyOf\<close> is a sequence of \<open>if\<close> statements, each testing the class of the event;
  one function stands for each, in the order of the source. The first two:
  \<open>this.steps.set(event.activityId.value, this.createStep(event.details, ...))\<close>.
\<close>

fun whenTaskStarts :: "DomainEvent \<Rightarrow> PlaywrightStepReporter \<Rightarrow> PlaywrightStepReporter" where
  "whenTaskStarts (TaskStarts activityId details) r = setStep activityId details ''task'' r"
| "whenTaskStarts event r = r"

fun whenInteractionStarts ::
  "DomainEvent \<Rightarrow> PlaywrightStepReporter \<Rightarrow> PlaywrightStepReporter" where
  "whenInteractionStarts (InteractionStarts activityId details) r =
     setStep activityId details ''interaction'' r"
| "whenInteractionStarts event r = r"

text \<open>
  \<open>event instanceof AsyncOperationAttempted &&
  event.name.value.startsWith(Photographer.name)\<close>.
\<close>

fun whenPhotographerAttempts ::
  "Externals \<Rightarrow> DomainEvent \<Rightarrow> PlaywrightStepReporter \<Rightarrow> PlaywrightStepReporter" where
  "whenPhotographerAttempts x (AsyncOperationAttempted name eventDescription correlationId t) r =
     (if prefix PhotographerName name
      then setStep correlationId
             \<lparr> detailsName = PhotographerName @ '': '' @ eventDescription,
               detailsLocation =
                 Some \<lparr> path = genericPathToPhotographer x, line = None, column = None \<rparr> \<rparr>
             ''crew'' r
      else r)"
| "whenPhotographerAttempts x event r = r"

text \<open>
  The terminal events of an async operation, each guarded by
  \<open>this.steps.has(event.correlationId.value)\<close>: the step under the id is completed, and
  nothing is done for an id that is not a key.
\<close>

definition completeKnown ::
  "CorrelationId \<Rightarrow> error option \<Rightarrow> PlaywrightStepReporter \<Rightarrow> PlaywrightStepReporter" where
  "completeKnown correlationId result r =
     (case steps r correlationId of
        None \<Rightarrow> r
      | Some step \<Rightarrow> r\<lparr>testInfo := complete step result (testInfo r)\<rparr>)"

fun whenCompletedOrAborted ::
  "DomainEvent \<Rightarrow> PlaywrightStepReporter \<Rightarrow> PlaywrightStepReporter" where
  "whenCompletedOrAborted (AsyncOperationCompleted correlationId t) r =
     completeKnown correlationId None r"
| "whenCompletedOrAborted (AsyncOperationAborted correlationId t) r =
     completeKnown correlationId None r"
| "whenCompletedOrAborted event r = r"

fun whenFailed :: "DomainEvent \<Rightarrow> PlaywrightStepReporter \<Rightarrow> PlaywrightStepReporter" where
  "whenFailed (AsyncOperationFailed e correlationId t) r = completeKnown correlationId (Some e) r"
| "whenFailed event r = r"

text \<open>
  \<open>event instanceof InteractionFinished || event instanceof TaskFinished\<close>:
  \<open>this.steps.get(event.activityId.value).complete(...)\<close>, with the error of a
  \<open>ProblemIndication\<close>, and with no test of \<open>this.steps.has\<close>. On an id that is not a
  key, \<open>get\<close> gives \<open>undefined\<close> and the call of \<open>complete\<close> throws a \<open>TypeError\<close>.
\<close>

definition activityFinished ::
  "CorrelationId \<Rightarrow> Outcome \<Rightarrow> PlaywrightStepReporter \<Rightarrow> PlaywrightStepReporter result" where
  "activityFinished activityId outcome r =
     (case steps r activityId of
        None \<Rightarrow> Inl (TypeError ''Cannot read properties of undefined (reading complete)'')
      | Some step \<Rightarrow>
          (case outcome of
             ProblemIndication e \<Rightarrow> Inr (r\<lparr>testInfo := complete step (Some e) (testInfo r)\<rparr>)
           | _ \<Rightarrow> Inr (r\<lparr>testInfo := complete step None (testInfo r)\<rparr>)))"

fun whenActivityFinished ::
  "DomainEvent \<Rightarrow> PlaywrightStepReporter \<Rightarrow> PlaywrightStepReporter result" where
  "whenActivityFinished (InteractionFinished activityId details outcome) r =
     activityFinished activityId outcome r"
| "whenActivityFinished (TaskFinished activityId details outcome) r =
     activityFinished activityId outcome r"
| "whenActivityFinished event r = Inr r"

text \<open>
  \<open>event instanceof ActivityRelatedArtifactGenerated && event.artifact instanceof
  Photo\<close>: the id is created, \<open>AsyncOperationAttempted\<close> is announced, and
  \<open>testInfo.attach(...)\<close> is called; its promise is not awaited, and its \<open>then\<close> has a
  callback for fulfilment only. Without a stage, \<open>this.stage.announce\<close> throws a
  \<open>TypeError\<close>.
\<close>

definition photoGenerated ::
  "Externals \<Rightarrow> string \<Rightarrow> string \<Rightarrow> PlaywrightStepReporter \<Rightarrow> PlaywrightStepReporter result" where
  "photoGenerated x name base64EncodedValue r =
     (case stage r of
        None \<Rightarrow> Inl (TypeError ''Cannot read properties of undefined (reading announce)'')
      | Some s \<Rightarrow>
          Inr (r\<lparr> stage := Some (announce
                   (AsyncOperationAttempted reporterName
                      (''Attaching screenshot of '' @ singleQuote @ name @ singleQuote @ ''...'')
                      (createdId x) (currentTime s)) s),
                 pendingAttachments := pendingAttachments r @
                   [\<lparr> attaching = \<lparr> attachmentName = name, base64Body = base64EncodedValue,
                                     contentType = ''image/png'' \<rparr>,
                      thenAnnounces = createdId x \<rparr>] \<rparr>))"

fun whenPhotoGenerated ::
  "Externals \<Rightarrow> DomainEvent \<Rightarrow> PlaywrightStepReporter \<Rightarrow> PlaywrightStepReporter result" where
  "whenPhotoGenerated x (ActivityRelatedArtifactGenerated activityId name (Photo base64EncodedValue)) r =
     photoGenerated x name base64EncodedValue r"
| "whenPhotoGenerated x event r = Inr r"

text \<open>
  \<open>this.testInfo.annotations.push({ type: event.tag.type, description: event.tag.name })\<close>.
\<close>

fun whenSceneTagged :: "DomainEvent \<Rightarrow> PlaywrightStepReporter \<Rightarrow> PlaywrightStepReporter" where
  "whenSceneTagged (SceneTagged tag) r =
     r\<lparr>testInfo := (testInfo r)
        \<lparr>annotations := annotations (testInfo r) @ [(tagType tag, tagName tag)]\<rparr>\<rparr>"
| "whenSceneTagged event r = r"

text \<open>
  \<open>notifyOf\<close>: the eight statements one after the other; a statement that throws ends
  the call.
\<close>

definition notifyOf ::
  "Externals \<Rightarrow> DomainEvent \<Rightarrow> PlaywrightStepReporter \<Rightarrow> PlaywrightStepReporter result" where
  "notifyOf x event r =
     (case whenActivityFinished event
             (whenFailed event
               (whenCompletedOrAborted event
                 (whenPhotographerAttempts x event
                   (whenInteractionStarts event
                     (whenTaskStarts event r))))) of
        Inl e \<Rightarrow> Inl e
      | Inr r' \<Rightarrow>
          (case whenPhotoGenerated x event r' of
             Inl e \<Rightarrow> Inl e
           | Inr r'' \<Rightarrow> Inr (whenSceneTagged event r'')))"

text \<open>
  The promise of the pending attachment at position \<open>k\<close> settles. On fulfilment the
  callback announces \<open>AsyncOperationCompleted\<close> with the id it has closed over, at the
  stage's current time. A rejection finds no handler: the promise \<open>then\<close> returned is
  rejected with the same error and nobody handles it.
\<close>

definition attachSettled ::
  "nat \<Rightarrow> AttachOutcome \<Rightarrow> PlaywrightStepReporter \<Rightarrow> PlaywrightStepReporter" where
  "attachSettled k outcome r =
     (if k < length (pendingAttachments r)
      then
        (let p = pendingAttachments r ! k;
             r' = r\<lparr>pendingAttachments :=
                     take k (pendingAttachments r) @ drop (Suc k) (pendingAttachments r)\<rparr>
         in case outcome of
              Rejected e \<Rightarrow> r'\<lparr>unhandledRejections := unhandledRejections r' @ [e]\<rparr>
            | Fulfilled \<Rightarrow>
                (case stage r' of
                   None \<Rightarrow> r'\<lparr> testInfo := (testInfo r')
                                 \<lparr>attachments := attachments (testInfo r') @ [attaching p]\<rparr>,
                               unhandledRejections := unhandledRejections r' @
                                 [TypeError ''Cannot read properties of undefined (reading announce)''] \<rparr>
                 | Some s \<Rightarrow>
                     r'\<lparr> testInfo := (testInfo r')
                            \<lparr>attachments := attachments (testInfo r') @ [attaching p]\<rparr>,
                          stage := Some (announce
                            (AsyncOperationCompleted (thenAnnounces p) (currentTime s)) s) \<rparr>))
      else r)"

text \<open>The terminal events, and the correlation id each carries.\<close>

fun terminalId :: "DomainEvent \<Rightarrow> CorrelationId option" where
  "terminalId (AsyncOperationCompleted correlationId t) = Some correlationId"
| "terminalId (AsyncOperationAborted correlationId t) = Some correlationId"
| "terminalId (AsyncOperationFailed e correlationId t) = Some correlationId"
| "terminalId (InteractionFinished activityId details outcome) = Some activityId"
| "terminalId (TaskFinished activityId details outcome) = Some activityId"
| "terminalId event = None"

text \<open>
  The id under which an event sets a record of the steps map (the three statements that
  call \<open>this.steps.set\<close>), and the result a terminal event has \<open>complete\<close> called with
  (the error it carries, if any).
\<close>

fun startedId :: "DomainEvent \<Rightarrow> CorrelationId option" where
  "startedId (TaskStarts activityId details) = Some activityId"
| "startedId (InteractionStarts activityId details) = Some activityId"
| "startedId (AsyncOperationAttempted name eventDescription correlationId t) =
     (if prefix PhotographerName name then Some correlationId else None)"
| "startedId event = None"

fun terminalResult :: "DomainEvent \<Rightarrow> error option" where
  "terminalResult (AsyncOperationFailed e correlationId t) = Some e"
| "terminalResult (InteractionFinished activityId details (ProblemIndication e)) = Some e"
| "terminalResult (TaskFinished activityId details (ProblemIndication e)) = Some e"
| "terminalResult event = None"

text \<open>A reporter as its constructor leaves it.\<close>

definition newReporter :: "Stage option \<Rightarrow> PlaywrightStepReporter" where
  "newReporter s =
     \<lparr> steps = Map.empty,
       testInfo = \<lparr> addedSteps = [], attachments = [], annotations = [] \<rparr>,
       stage = s,
       pendingAttachments = [],
       unhandledRejections = [] \<rparr>"

text \<open>
  What happens to a reporter, one thing after the other: it is notified of an event, or
  the promise of a pending attachment settles. A notification that throws ends the run.
\<close>

datatype Happening =
    Notified Externals DomainEvent
  | Settled nat AttachOutcome

fun happens :: "Happening \<Rightarrow> PlaywrightStepReporter \<Rightarrow> PlaywrightStepReporter result" where
  "happens (Notified x event) r = notifyOf x event r"
| "happens (Settled k outcome) r = Inr (attachSettled k outcome r)"

fun run :: "Happening list \<Rightarrow> PlaywrightStepReporter \<Rightarrow> PlaywrightStepReporter result" where
  "run [] r = Inr r"
| "run (h # hs) r =
     (case happens h r of
        Inl e \<Rightarrow> Inl e
      | Inr r' \<Rightarrow> run hs r')"

text \<open>The record the steps map holds under an id at the end of a run, if the run ends well.\<close>

definition stepUnder :: "CorrelationId \<Rightarrow> PlaywrightStepReporter result \<Rightarrow> nat option" where
  "stepUnder correlationId outcome =
     (case outcome of
        Inl e \<Rightarrow> None
      | Inr r \<Rightarrow> steps r correlationId)"

text \<open>
  The ids of the \<open>AsyncOperationAttempted\<close> events of a log, and the logs in which every
  \<open>AsyncOperationCompleted\<close> comes after an \<open>AsyncOperationAttempted\<close> with its id
  (\<open>seen\<close> are the ids attempted before the log starts).
\<close>

fun attemptedIds :: "DomainEvent list \<Rightarrow> CorrelationId list" where
  "attemptedIds [] = []"
| "attemptedIds (AsyncOperationAttempted name eventDescription correlationId t # events) =
     correlationId # attemptedIds events"
| "attemptedIds (event # events) = attemptedIds events"

fun completedAfterAttempted :: "CorrelationId list \<Rightarrow> DomainEvent list \<Rightarrow> bool" where
  "completedAfterAttempted seen [] = True"
| "completedAfterAttempted seen (AsyncOperationAttempted name eventDescription correlationId t # events) =
     completedAfterAttempted (correlationId # seen) events"
| "completedAfterAttempted seen (AsyncOperationCompleted correlationId t # events) =
     (correlationId \<in> set seen \<and> completedAfterAttempted seen events)"
| "completedAfterAttempted seen (event # events) = completedAfterAttempted seen events"

text \<open>
  The state of a reporter is in order when the log of its stage is, and the id of every
  pending attachment has been announced as attempted.
\<close>

definition inOrder :: "PlaywrightStepReporter \<Rightarrow> bool" where
  "inOrder r \<longleftrightarrow>
     (case stage r of
        None \<Rightarrow> pendingAttachments r = []
      | Some s \<Rightarrow>
          completedAfterAttempted [] (announced s)
          \<and> list_all (\<lambda>p. thenAnnounces p \<in> set (attemptedIds (announced s)))
               (pendingAttachments r))"

section \<open>Concrete inputs\<close>

text \<open>
  Collaborators with the value-formatting strategy above: every formatted value is
  described as \<open>value\<close>, the options change nothing, and the actor answers a question
  by running it.
\<close>

definition exampleCollaborators :: "('a, 'w, answerable) collaborators" where
  "exampleCollaborators =
     \<lparr> formattedValue = (\<lambda>options p.
         \<lparr> description = ''value'',
           body = (case p of Describable d \<Rightarrow> d
                   | Other v \<Rightarrow> formattedValueOf (\<lambda>opts s. s) options v) \<rparr>),
       answer = answerQuestion \<rparr>"

text \<open>
  Collaborators whose options act: a rendering longer than \<open>maxLength\<close> is cut to that
  length and ends in three dots.
\<close>

definition trimmed :: "DescriptionFormattingOptions \<Rightarrow> string \<Rightarrow> string" where
  "trimmed opts s =
     (case maxLength opts of
        None \<Rightarrow> s
      | Some n \<Rightarrow> if n < length s then take n s @ ''...'' else s)"

definition trimmingCollaborators :: "('a, 'w, answerable) collaborators" where
  "trimmingCollaborators =
     \<lparr> formattedValue = (\<lambda>options p.
         \<lparr> description = ''value'',
           body = (case p of Describable d \<Rightarrow> d
                   | Other v \<Rightarrow> formattedValueOf trimmed options v) \<rparr>),
       answer = answerQuestion \<rparr>"

text \<open>
  The use of what \<open>the\<close> returns: the tag function applied to the strings and the
  placeholders of a template, or the question built at once.
\<close>

fun tagged ::
  "('a, 'w, 'v) theResult \<Rightarrow> string list \<Rightarrow> ('a, 'w, 'v) parameter list \<Rightarrow>
   ('a, 'w) question option" where
  "tagged (TagFunction f) templates parameters = Some (f templates parameters)"
| "tagged (Built q) templates parameters = None"

fun built :: "('a, 'w, 'v) theResult \<Rightarrow> ('a, 'w) question option" where
  "built (Built q) = Some q"
| "built (TagFunction f) = None"

fun answeredBy :: "('a, 'w) question option \<Rightarrow> 'a \<Rightarrow> 'w \<Rightarrow> (string result \<times> 'w) option" where
  "answeredBy (Some q) actor w = Some (body q actor w)"
| "answeredBy None actor w = None"

definition exampleExternals :: Externals where
  "exampleExternals = \<lparr> genericPathToPhotographer = ''web/lib/index.js'', createdId = ''c1'' \<rparr>"

definition exampleDetails :: ActivityDetails where
  "exampleDetails = \<lparr> detailsName = ''Alice dials'', detailsLocation = None \<rparr>"


definition exampleBrowser :: BrowseTheWeb where
  "exampleBrowser = \<lparr> takeScreenshot = Inr ''png-bytes'' \<rparr>"

definition exampleActor :: "BrowseTheWeb Actor" where
  "exampleActor = \<lparr> actorName = ''Alice'', abilities = [''BrowseTheWeb'' \<mapsto> exampleBrowser] \<rparr>"

definition exampleOutlet :: Outlet where
  "exampleOutlet = \<lparr> sent = [], stored = (\<lambda>filename data. Inr (''target/'' @ filename)) \<rparr>"

section \<open>Properties of \<open>the\<close>\<close>

subsection \<open>Interpolation\<close>

lemma interpolate_Nil: "interpolate [] ds = []"
  by (simp add: interpolate_def)

lemma interpolate_Cons:
  "interpolate (t # ts) (d # ds) = t @ d @ interpolate ts ds"
  by (simp add: interpolate_def enumerate_Suc_eq comp_def case_prod_beta' cong: if_cong)

lemma singletons_enumerate:
  "map (\<lambda>(i, template). [template]) (enumerate n ts) = map (\<lambda>t. [t]) ts"
  by (induction ts arbitrary: n) simp_all

lemma interpolate_no_parameters: "interpolate ts [] = concat ts"
  by (simp add: interpolate_def singletons_enumerate)

lemma interpolate_segmentsInterposed:
  "interpolate ts ds = segmentsInterposed ts ds"
  by (induction ts ds rule: segmentsInterposed.induct)
    (simp_all add: interpolate_Cons interpolate_Nil interpolate_no_parameters)

lemma asyncMap_length:
  "asyncMap f xs w = (Inr ys, w') \<Longrightarrow> length ys = length xs"
  by (induction xs arbitrary: w ys) (auto split: prod.splits sum.splits)

lemma asyncMap_nth:
  "asyncMap f xs w = (Inr ys, w') \<Longrightarrow> i < length xs \<Longrightarrow>
     \<exists>u u'. f (xs ! i) u = (Inr (ys ! i), u')"
proof (induction xs arbitrary: w ys i)
  case Nil
  then show ?case by simp
next
  case (Cons x xs)
  then show ?case
    by (cases i) (fastforce split: prod.splits sum.splits)+
qed

lemma body_templateToQuestion:
  "body (templateToQuestion C templates parameters options) actor w =
     (case asyncMap (describeParameter C options actor) parameters w of
        (Inl e, w') \<Rightarrow> (Inl e, w')
      | (Inr descriptions, w') \<Rightarrow> (Inr (interpolate templates descriptions), w'))"
  by (simp add: templateToQuestion_def)

text \<open>
  C1. A question built from a template literal with \<open>k\<close> literal segments and \<open>k - 1\<close>
  placeholders: its description is the segments in their order with the descriptions of
  the formatted placeholders between them, and when an actor answers it, the string it
  gives is \<open>templates[0] + d1 + templates[1] + ... + d(k-1) + templates[k-1]\<close>, where
  there are as many \<open>d\<close> as placeholders and the \<open>i\<close>-th is what resolving the \<open>i\<close>-th
  placeholder gave. No segment and no placeholder is dropped or moved.
\<close>

theorem the_round_trip:
  assumes "length templates = Suc (length parameters)"
  shows "description (templateToQuestion C templates parameters options) =
           segmentsInterposed templates
             (map (\<lambda>p. description (formattedValue C options p)) parameters)
         \<and> (\<forall>s w'. body (templateToQuestion C templates parameters options) actor w = (Inr s, w')
              \<longrightarrow> (\<exists>ds. length ds = length parameters
                    \<and> (\<forall>i < length parameters.
                          \<exists>u u'. describeParameter C options actor (parameters ! i) u = (Inr (ds ! i), u'))
                    \<and> s = segmentsInterposed templates ds))"
proof (intro conjI allI impI)
  show "description (templateToQuestion C templates parameters options) =
           segmentsInterposed templates
             (map (\<lambda>p. description (formattedValue C options p)) parameters)"
    by (simp add: templateToQuestion_def interpolate_segmentsInterposed)
next
  fix s w'
  assume b: "body (templateToQuestion C templates parameters options) actor w = (Inr s, w')"
  then obtain ds where m: "asyncMap (describeParameter C options actor) parameters w = (Inr ds, w')"
    and s: "s = interpolate templates ds"
    by (auto simp: body_templateToQuestion split: prod.splits sum.splits)
  have "length ds = length parameters"
    using m by (rule asyncMap_length)
  moreover have "\<forall>i < length parameters.
      \<exists>u u'. describeParameter C options actor (parameters ! i) u = (Inr (ds ! i), u')"
    using m by (blast dest: asyncMap_nth)
  moreover have "s = segmentsInterposed templates ds"
    using s by (simp add: interpolate_segmentsInterposed)
  ultimately show "\<exists>ds. length ds = length parameters
                    \<and> (\<forall>i < length parameters.
                          \<exists>u u'. describeParameter C options actor (parameters ! i) u = (Inr (ds ! i), u'))
                    \<and> s = segmentsInterposed templates ds"
    by blast
qed

theorem the_round_trip_witness:
  "length [''#actor dials '', ''''] = Suc (length [Other (Now (Str ''555''))])
   \<and> body (templateToQuestion exampleCollaborators [''#actor dials '', '''']
        [Other (Now (Str ''555''))] None) () ()
     = (Inr (''#actor dials '' @ doubleQuote @ ''555'' @ doubleQuote), ())
   \<and> description (templateToQuestion exampleCollaborators [''#actor dials '', '''']
        [Other (Now (Str ''555''))] None) = ''#actor dials value''"
  using the_round_trip [of "[''#actor dials '', '''']" "[Other (Now (Str ''555''))]"
      exampleCollaborators None "()" "()"]
  by (simp add: body_templateToQuestion exampleCollaborators_def formattedValueOf_def
      answerQuestion_def formatted_def interpolate_segmentsInterposed templateToQuestion_def)

subsection \<open>Idempotence\<close>

lemma asyncMap_outcome_stable:
  assumes "\<forall>x \<in> set xs. \<forall>u u'. fst (f x u) = fst (f x u')"
  shows "fst (asyncMap f xs u) = fst (asyncMap f xs u')"
  using assms
proof (induction xs arbitrary: u u')
  case Nil
  show ?case by simp
next
  case (Cons x xs)
  have head: "fst (f x u) = fst (f x u')"
    using Cons.prems by simp
  have tail: "\<And>v v'. fst (asyncMap f xs v) = fst (asyncMap f xs v')"
    using Cons.IH Cons.prems by simp
  obtain a v where fu: "f x u = (a, v)" by (cases "f x u")
  obtain a' v' where fu': "f x u' = (a', v')" by (cases "f x u'")
  have aa: "a' = a" using head fu fu' by simp
  show ?case
  proof (cases a)
    case (Inl e)
    then show ?thesis using fu fu' aa by simp
  next
    case (Inr y)
    obtain b z where m: "asyncMap f xs v = (b, z)" by (cases "asyncMap f xs v")
    obtain b' z' where m': "asyncMap f xs v' = (b', z')" by (cases "asyncMap f xs v'")
    have "b' = b" using tail [of v v'] m m' by simp
    then show ?thesis using Inr fu fu' aa m m' by (simp split: sum.splits)
  qed
qed

text \<open>
  C8. Describing a question built by \<open>the\<close> twice, one call after the other, with the
  same options and the same actor gives the same outcome both times: the question keeps
  no state of its own between the calls. The world stands for the state outside the
  question; the second call starts in the world the first one left. The placeholders are
  fixed: what resolving each of them gives does not depend on the world it is resolved in
  (resolving may still change the world).
\<close>

theorem the_idempotent:
  assumes "\<forall>p \<in> set parameters. \<forall>u u'.
     fst (describeParameter C options actor p u) = fst (describeParameter C options actor p u')"
  shows "fst (body (templateToQuestion C templates parameters options) actor
            (snd (body (templateToQuestion C templates parameters options) actor w)))
         = fst (body (templateToQuestion C templates parameters options) actor w)"
proof -
  have "\<And>u u'. fst (body (templateToQuestion C templates parameters options) actor u)
     = fst (body (templateToQuestion C templates parameters options) actor u')"
  proof -
    fix u u'
    have "fst (asyncMap (describeParameter C options actor) parameters u)
        = fst (asyncMap (describeParameter C options actor) parameters u')"
      using assms by (rule asyncMap_outcome_stable)
    then show "fst (body (templateToQuestion C templates parameters options) actor u)
     = fst (body (templateToQuestion C templates parameters options) actor u')"
      by (auto simp: body_templateToQuestion split: prod.splits sum.splits)
  qed
  then show ?thesis .
qed

theorem the_idempotent_witness:
  "body (templateToQuestion exampleCollaborators ['''', '' dials '', '''']
         [Describable (\<lambda>actor w. (Inr actor, Suc w)), Other (Now (Str ''555''))] None)
       ''Alice'' (0::nat)
     = (Inr (''Alice dials '' @ doubleQuote @ ''555'' @ doubleQuote), 1)
   \<and> fst (body (templateToQuestion exampleCollaborators ['''', '' dials '', '''']
         [Describable (\<lambda>actor w. (Inr actor, Suc w)), Other (Now (Str ''555''))] None)
       ''Alice'' (1::nat))
     = Inr (''Alice dials '' @ doubleQuote @ ''555'' @ doubleQuote)"
proof -
  have fixed: "\<forall>p \<in> set [Describable (\<lambda>actor w. (Inr actor, Suc w)), Other (Now (Str ''555''))].
      \<forall>u u'. fst (describeParameter exampleCollaborators None ''Alice'' p (u::nat))
        = fst (describeParameter exampleCollaborators None ''Alice'' p u')"
    by (simp add: exampleCollaborators_def formattedValueOf_def answerQuestion_def)
  show ?thesis
    using the_idempotent [OF fixed, of "['''', '' dials '', '''']" "0::nat"]
    by (simp add: body_templateToQuestion exampleCollaborators_def formattedValueOf_def
        answerQuestion_def formatted_def interpolate_segmentsInterposed)
qed

subsection \<open>The two forms of \<open>the\<close>\<close>

lemma asyncMap_cong_set:
  assumes "\<forall>x \<in> set xs. f x = g x"
  shows "asyncMap f xs w = asyncMap g xs w"
  using assms
proof (induction xs arbitrary: w)
  case Nil
  show ?case by simp
next
  case (Cons x xs)
  have h: "f x = g x" using Cons.prems by simp
  have t: "\<And>u. asyncMap f xs u = asyncMap g xs u" using Cons.IH Cons.prems by simp
  show ?case by (simp add: h t split: prod.splits sum.splits)
qed

lemma describeParameter_agree:
  assumes "formattedValue C options p = formattedValue C options' p"
  shows "describeParameter C options actor p = describeParameter C options' actor p"
proof
  fix w
  show "describeParameter C options actor p w = describeParameter C options' actor p w"
    using assms by (cases p) simp_all
qed

lemma templateToQuestion_agree:
  assumes "\<forall>p \<in> set parameters. formattedValue C options p = formattedValue C options' p"
  shows "templateToQuestion C templates parameters options
       = templateToQuestion C templates parameters options'"
proof -
  have d: "map (\<lambda>p. description (formattedValue C options p)) parameters
         = map (\<lambda>p. description (formattedValue C options' p)) parameters"
    using assms by simp
  have "\<forall>p \<in> set parameters.
      describeParameter C options actor p = describeParameter C options' actor p" for actor
    using assms by (blast intro: describeParameter_agree)
  then have b: "asyncMap (describeParameter C options actor) parameters w
         = asyncMap (describeParameter C options' actor) parameters w" for actor w
    by (rule asyncMap_cong_set)
  show ?thesis
    unfolding templateToQuestion_def d using b by simp
qed

lemma description_interposed:
  "description (templateToQuestion C templates parameters options)
     = segmentsInterposed templates
         (map (\<lambda>p. description (formattedValue C options p)) parameters)"
  by (simp add: templateToQuestion_def interpolate_segmentsInterposed)

lemma body_interposed:
  "body (templateToQuestion C templates parameters options) actor w =
         (case asyncMap (describeParameter C options actor) parameters w of
            (Inl e, w') \<Rightarrow> (Inl e, w')
          | (Inr ds, w') \<Rightarrow> (Inr (segmentsInterposed templates ds), w'))"
  by (simp add: templateToQuestion_def interpolate_segmentsInterposed split: prod.splits sum.splits)

lemma trimmed_phone:
  "describeParameter (trimmingCollaborators :: (unit, unit, answerable) collaborators)
     (Some \<lparr>maxLength = Some 4\<rparr>) () (Other (Now (Str ''5551234567''))) ()
     = (Inr (doubleQuote @ ''555...''), ())"
  by (simp add: trimmingCollaborators_def formattedValueOf_def answerQuestion_def formatted_def
      trimmed_def doubleQuote_def)

lemma full_phone:
  "describeParameter (trimmingCollaborators :: (unit, unit, answerable) collaborators)
     None () (Other (Now (Str ''5551234567''))) ()
     = (Inr (doubleQuote @ ''5551234567'' @ doubleQuote), ())"
  by (simp add: trimmingCollaborators_def formattedValueOf_def answerQuestion_def formatted_def)

text \<open>
  C10. \<open>the\<close> looks at its first argument. It returns a tag function exactly when that
  argument is a plain object, and never for the strings of a template. Both forms build
  the question by the same interpolation: the description is the segments with the
  descriptions of the formatted placeholders interposed, and the answer is the segments
  with the resolved placeholders interposed, in the order of the template. The tag
  function resolves each placeholder with the given options, the direct form with none;
  the options reach a placeholder through its formatted value alone, and not at all when
  it is \<open>Describable\<close>. That is their only difference: applied to the same strings and
  placeholders, they give the same question wherever the formatted value of every
  placeholder is the same with the options and without.
\<close>

theorem the_dispatch:
  "(isPlainObject a \<longleftrightarrow> (\<exists>f. the_fn C a rest = TagFunction f))
   \<and> (\<forall>options. a = OptionsObject options \<longrightarrow>
        (\<exists>f. the_fn C a rest = TagFunction f
           \<and> (\<forall>templates parameters.
                description (f templates parameters)
                  = segmentsInterposed templates
                      (map (\<lambda>p. description (formattedValue C (Some options) p)) parameters)
                \<and> (\<forall>actor w. body (f templates parameters) actor w =
                      (case asyncMap (describeParameter C (Some options) actor) parameters w of
                         (Inl e, w') \<Rightarrow> (Inl e, w')
                       | (Inr ds, w') \<Rightarrow> (Inr (segmentsInterposed templates ds), w'))))))
   \<and> (\<forall>templates. a = TemplateStringsArray templates \<longrightarrow>
        (\<exists>q. the_fn C a rest = Built q
           \<and> description q
               = segmentsInterposed templates
                   (map (\<lambda>p. description (formattedValue C None p)) rest)
           \<and> (\<forall>actor w. body q actor w =
                 (case asyncMap (describeParameter C None actor) rest w of
                    (Inl e, w') \<Rightarrow> (Inl e, w')
                  | (Inr ds, w') \<Rightarrow> (Inr (segmentsInterposed templates ds), w')))))
   \<and> (\<forall>options templates.
         (\<forall>p \<in> set rest. formattedValue C (Some options) p = formattedValue C None p) \<longrightarrow>
         tagged (the_fn C (OptionsObject options) []) templates rest
           = built (the_fn C (TemplateStringsArray templates) rest))
   \<and> (\<forall>options actor describedBy v.
         describeParameter C options actor (Describable describedBy) = describedBy actor
         \<and> describeParameter C options actor (Other v)
             = answer C actor (formattedValue C options (Other v)))"
proof (intro conjI allI impI)
  show "isPlainObject a \<longleftrightarrow> (\<exists>f. the_fn C a rest = TagFunction f)"
    by (simp add: the_fn_def)
next
  fix options
  assume a: "a = OptionsObject options"
  have f: "the_fn C a rest =
      TagFunction (\<lambda>templates parameters. templateToQuestion C templates parameters (Some options))"
    using a by (simp add: the_fn_def)
  show "\<exists>f. the_fn C a rest = TagFunction f
           \<and> (\<forall>templates parameters.
                description (f templates parameters)
                  = segmentsInterposed templates
                      (map (\<lambda>p. description (formattedValue C (Some options) p)) parameters)
                \<and> (\<forall>actor w. body (f templates parameters) actor w =
                      (case asyncMap (describeParameter C (Some options) actor) parameters w of
                         (Inl e, w') \<Rightarrow> (Inl e, w')
                       | (Inr ds, w') \<Rightarrow> (Inr (segmentsInterposed templates ds), w'))))"
    unfolding f
    by (intro exI [of _ "\<lambda>templates parameters. templateToQuestion C templates parameters (Some options)"]
        conjI allI refl description_interposed body_interposed)
next
  fix templates
  assume a: "a = TemplateStringsArray templates"
  have q: "the_fn C a rest = Built (templateToQuestion C templates rest None)"
    using a by (simp add: the_fn_def)
  show "\<exists>q. the_fn C a rest = Built q
           \<and> description q
               = segmentsInterposed templates
                   (map (\<lambda>p. description (formattedValue C None p)) rest)
           \<and> (\<forall>actor w. body q actor w =
                 (case asyncMap (describeParameter C None actor) rest w of
                    (Inl e, w') \<Rightarrow> (Inl e, w')
                  | (Inr ds, w') \<Rightarrow> (Inr (segmentsInterposed templates ds), w')))"
    unfolding q
    by (intro exI [of _ "templateToQuestion C templates rest None"]
        conjI allI refl description_interposed body_interposed)
next
  fix options templates
  assume "\<forall>p \<in> set rest. formattedValue C (Some options) p = formattedValue C None p"
  then have "templateToQuestion C templates rest (Some options)
      = templateToQuestion C templates rest None"
    by (rule templateToQuestion_agree)
  then show "tagged (the_fn C (OptionsObject options) []) templates rest
           = built (the_fn C (TemplateStringsArray templates) rest)"
    by (simp add: the_fn_def)
next
  fix options actor describedBy v
  show "describeParameter C options actor (Describable describedBy) = describedBy actor"
    by (intro ext) simp
  show "describeParameter C options actor (Other v)
      = answer C actor (formattedValue C options (Other v))"
    by (intro ext) simp
qed

theorem the_dispatch_witness:
  "answeredBy
     (tagged (the_fn trimmingCollaborators (OptionsObject \<lparr>maxLength = Some 4\<rparr>) [])
        [''#actor dials '', '' now''] [Other (Now (Str ''5551234567''))]) () ()
     = Some (Inr (''#actor dials '' @ doubleQuote @ ''555... now''), ())
   \<and> answeredBy
     (built (the_fn trimmingCollaborators (TemplateStringsArray [''#actor dials '', '' now''])
        [Other (Now (Str ''5551234567''))])) () ()
     = Some (Inr (''#actor dials '' @ doubleQuote @ ''5551234567'' @ doubleQuote @ '' now''), ())
   \<and> tagged (the_fn (trimmingCollaborators :: (unit, unit, answerable) collaborators)
        (OptionsObject \<lparr>maxLength = Some 4\<rparr>) [])
        [''#actor says '', ''''] [Describable (\<lambda>actor w. (Inr ''hello'', w))]
     = built (the_fn trimmingCollaborators (TemplateStringsArray [''#actor says '', ''''])
        [Describable (\<lambda>actor w. (Inr ''hello'', w))])"
proof (intro conjI)
  note options_form = the_dispatch [of "OptionsObject \<lparr>maxLength = Some 4\<rparr>"
      "trimmingCollaborators :: (unit, unit, answerable) collaborators" "[]",
      THEN conjunct2, THEN conjunct1, rule_format, OF refl]
  then obtain f where f: "the_fn (trimmingCollaborators :: (unit, unit, answerable) collaborators)
          (OptionsObject \<lparr>maxLength = Some 4\<rparr>) [] = TagFunction f"
    and b: "\<And>templates parameters actor w. body (f templates parameters) actor w
          = (case asyncMap (describeParameter trimmingCollaborators (Some \<lparr>maxLength = Some 4\<rparr>) actor)
               parameters w of
               (Inl e, w') \<Rightarrow> (Inl e, w')
             | (Inr ds, w') \<Rightarrow> (Inr (segmentsInterposed templates ds), w'))"
    by (elim exE conjE) simp
  show "answeredBy
     (tagged (the_fn trimmingCollaborators (OptionsObject \<lparr>maxLength = Some 4\<rparr>) [])
        [''#actor dials '', '' now''] [Other (Now (Str ''5551234567''))]) () ()
     = Some (Inr (''#actor dials '' @ doubleQuote @ ''555... now''), ())"
    by (simp add: f b trimmed_phone del: describeParameter.simps)
next
  note direct_form = the_dispatch [of "TemplateStringsArray [''#actor dials '', '' now'']"
      "trimmingCollaborators :: (unit, unit, answerable) collaborators"
      "[Other (Now (Str ''5551234567''))]",
      THEN conjunct2, THEN conjunct2, THEN conjunct1, rule_format, OF refl]
  then obtain q where q: "the_fn (trimmingCollaborators :: (unit, unit, answerable) collaborators)
          (TemplateStringsArray [''#actor dials '', '' now'']) [Other (Now (Str ''5551234567''))]
          = Built q"
    and b: "\<And>actor w. body q actor w
          = (case asyncMap (describeParameter trimmingCollaborators None actor)
               [Other (Now (Str ''5551234567''))] w of
               (Inl e, w') \<Rightarrow> (Inl e, w')
             | (Inr ds, w') \<Rightarrow> (Inr (segmentsInterposed [''#actor dials '', '' now''] ds), w'))"
    by (elim exE conjE) simp
  show "answeredBy
     (built (the_fn trimmingCollaborators (TemplateStringsArray [''#actor dials '', '' now''])
        [Other (Now (Str ''5551234567''))])) () ()
     = Some (Inr (''#actor dials '' @ doubleQuote @ ''5551234567'' @ doubleQuote @ '' now''), ())"
    by (simp add: q b full_phone del: describeParameter.simps)
next
  have same: "\<forall>p \<in> set [Describable (\<lambda>actor w. (Inr ''hello'', w))].
      formattedValue (trimmingCollaborators :: (unit, unit, answerable) collaborators)
        (Some \<lparr>maxLength = Some 4\<rparr>) p
      = formattedValue trimmingCollaborators None p"
    by (simp add: trimmingCollaborators_def)
  show "tagged (the_fn (trimmingCollaborators :: (unit, unit, answerable) collaborators)
        (OptionsObject \<lparr>maxLength = Some 4\<rparr>) [])
        [''#actor says '', ''''] [Describable (\<lambda>actor w. (Inr ''hello'', w))]
     = built (the_fn trimmingCollaborators (TemplateStringsArray [''#actor says '', ''''])
        [Describable (\<lambda>actor w. (Inr ''hello'', w))])"
    by (rule the_dispatch [of "TemplateStringsArray [''#actor says '', '''']"
        "trimmingCollaborators :: (unit, unit, answerable) collaborators"
        "[Describable (\<lambda>actor w. (Inr ''hello'', w))]",
        THEN conjunct2, THEN conjunct2, THEN conjunct2, THEN conjunct1, THEN spec, THEN spec,
        THEN mp, OF same])
qed

subsection \<open>Resolving a placeholder\<close>

text \<open>The rendering of the plain object in the documentation of \<open>the\<close>.\<close>

lemma doc_example_object:
  "stringified (Object [(''areaCode'', Str ''555''), (''centralOfficeCode'', Str ''123''),
      (''lineNumber'', Str ''4567'')])
   = ''{ areaCode: '' @ doubleQuote @ ''555'' @ doubleQuote @ '', centralOfficeCode: '' @ doubleQuote
       @ ''123'' @ doubleQuote @ '', lineNumber: '' @ doubleQuote @ ''4567'' @ doubleQuote @ '' }''"
  by simp

lemma describeParameter_formattedValueOf:
  assumes "answer C = answerQuestion"
    and "\<forall>v. body (formattedValue C options (Other v)) = formattedValueOf configured options v"
  shows "describeParameter C options actor p w =
         (case p of
            Describable describedBy \<Rightarrow> describedBy actor w
          | Other v \<Rightarrow>
              (case awaited v of
                 Inl e \<Rightarrow> (Inl e, w)
               | Inr x \<Rightarrow> (Inr (formatted configured options x), w)))"
  using assms by (cases p) (simp_all add: answerQuestion_def formattedValueOf_def)

text \<open>
  C5. When the description of a question built by \<open>the\<close> is resolved for an actor, a
  placeholder that is \<open>Describable\<close> contributes what its \<open>describedBy\<close> gives for that
  actor. Any other placeholder is resolved through \<open>actor.answer\<close> as an Answerable
  (awaited if pending, a rejection being the outcome) and formatted by the configured
  strategy: a string is quoted, a plain object is JSON-rendered, a custom string
  conversion is used if present, and a masked value becomes the fixed redaction marker.
  The formatted value and the actor's answer are the ones modelled from the
  specification.
\<close>

theorem placeholder_resolution:
  assumes "answer C = answerQuestion"
    and "\<forall>v. body (formattedValue C options (Other v)) = formattedValueOf configured options v"
  shows "(\<forall>p u. describeParameter C options actor p u =
           (case p of
              Describable describedBy \<Rightarrow> describedBy actor u
            | Other v \<Rightarrow>
                (case awaited v of
                   Inl e \<Rightarrow> (Inl e, u)
                 | Inr x \<Rightarrow> (Inr (formatted configured options x), u))))
       \<and> (\<forall>s w'. body (templateToQuestion C templates parameters options) actor w = (Inr s, w') \<longrightarrow>
            (\<exists>ds. length ds = length parameters \<and> s = interpolate templates ds
               \<and> (\<forall>i < length parameters.
                    case parameters ! i of
                      Describable describedBy \<Rightarrow> (\<exists>u u'. describedBy actor u = (Inr (ds ! i), u'))
                    | Other v \<Rightarrow> (\<exists>x. awaited v = Inr x \<and> ds ! i = formatted configured options x))))
       \<and> (\<forall>s. formatted configured None (Str s) = doubleQuote @ s @ doubleQuote)
       \<and> (\<forall>entries. formatted configured None (Object entries)
             = ''{ '' @ stringifiedFields entries @ '' }'')
       \<and> (\<forall>s. formatted configured None (WithToString s) = s)
       \<and> (\<forall>v. formatted configured None (Masked v) = redactionMarker)
       \<and> (\<forall>opts v. formatted configured (Some opts) v = configured opts (formatted configured None v))"
proof (intro conjI allI impI)
  fix p u
  show "describeParameter C options actor p u =
           (case p of
              Describable describedBy \<Rightarrow> describedBy actor u
            | Other v \<Rightarrow>
                (case awaited v of
                   Inl e \<Rightarrow> (Inl e, u)
                 | Inr x \<Rightarrow> (Inr (formatted configured options x), u)))"
    using assms by (rule describeParameter_formattedValueOf)
next
  fix s w'
  assume "body (templateToQuestion C templates parameters options) actor w = (Inr s, w')"
  then obtain ds where m: "asyncMap (describeParameter C options actor) parameters w = (Inr ds, w')"
    and s: "s = interpolate templates ds"
    by (auto simp: body_templateToQuestion split: prod.splits sum.splits)
  have len: "length ds = length parameters"
    using m by (rule asyncMap_length)
  have each: "case parameters ! i of
                Describable describedBy \<Rightarrow> (\<exists>u u'. describedBy actor u = (Inr (ds ! i), u'))
              | Other v \<Rightarrow> (\<exists>x. awaited v = Inr x \<and> ds ! i = formatted configured options x)"
    if i: "i < length parameters" for i
  proof -
    obtain u u' where d: "describeParameter C options actor (parameters ! i) u = (Inr (ds ! i), u')"
      using asyncMap_nth [OF m i] by blast
    show ?thesis
      using d describeParameter_formattedValueOf [OF assms, of actor "parameters ! i" u]
      by (auto split: parameter.splits sum.splits)
  qed
  show "\<exists>ds. length ds = length parameters \<and> s = interpolate templates ds
               \<and> (\<forall>i < length parameters.
                    case parameters ! i of
                      Describable describedBy \<Rightarrow> (\<exists>u u'. describedBy actor u = (Inr (ds ! i), u'))
                    | Other v \<Rightarrow> (\<exists>x. awaited v = Inr x \<and> ds ! i = formatted configured options x))"
    using len s each by blast
qed (simp_all add: formatted_def)

theorem placeholder_resolution_witness:
  "answer (exampleCollaborators :: (string, nat, answerable) collaborators) = answerQuestion
   \<and> (\<forall>v. body (formattedValue (exampleCollaborators :: (string, nat, answerable) collaborators)
              None (Other v)) = formattedValueOf (\<lambda>opts s. s) None v)
   \<and> body (templateToQuestion exampleCollaborators ['''', '' dials '', '' as '', '''']
         [Describable (\<lambda>actor w. (Inr actor, Suc w)), Other (Now (Str ''555'')),
          Other (Pending (Inr (Masked (Str ''secret''))))] None) ''Alice'' (0::nat)
       = (Inr (''Alice dials '' @ doubleQuote @ ''555'' @ doubleQuote @ '' as [a masked value]''), 1)
   \<and> describeParameter exampleCollaborators None ''Alice''
        (Other (Pending (Inl (Failure ''rejected'')))) (0::nat) = (Inl (Failure ''rejected''), 0)"
  using placeholder_resolution [of "exampleCollaborators :: (string, nat, answerable) collaborators"
      None "\<lambda>opts s. s" "''Alice''" "['''', '' dials '', '' as '', '''']"
      "[Describable (\<lambda>actor w. (Inr actor, Suc w)), Other (Now (Str ''555'')),
          Other (Pending (Inr (Masked (Str ''secret''))))]" "0::nat"]
  by (simp add: body_templateToQuestion exampleCollaborators_def formattedValueOf_def
      answerQuestion_def formatted_def interpolate_segmentsInterposed redactionMarker_def)

section \<open>Properties of the PlaywrightStepReporter\<close>

subsection \<open>What \<open>notifyOf\<close> does, event by event\<close>

lemma notifyOf_TaskStarts [simp]:
  "notifyOf x (TaskStarts activityId details) r = Inr (setStep activityId details ''task'' r)"
  by (simp add: notifyOf_def)

lemma notifyOf_InteractionStarts [simp]:
  "notifyOf x (InteractionStarts activityId details) r =
     Inr (setStep activityId details ''interaction'' r)"
  by (simp add: notifyOf_def)

lemma notifyOf_AsyncOperationAttempted [simp]:
  "notifyOf x (AsyncOperationAttempted name eventDescription correlationId t) r =
     (if prefix PhotographerName name
      then Inr (setStep correlationId
             \<lparr> detailsName = PhotographerName @ '': '' @ eventDescription,
               detailsLocation =
                 Some \<lparr> path = genericPathToPhotographer x, line = None, column = None \<rparr> \<rparr>
             ''crew'' r)
      else Inr r)"
  by (simp add: notifyOf_def)

lemma notifyOf_AsyncOperationCompleted [simp]:
  "notifyOf x (AsyncOperationCompleted correlationId t) r = Inr (completeKnown correlationId None r)"
  by (simp add: notifyOf_def)

lemma notifyOf_AsyncOperationAborted [simp]:
  "notifyOf x (AsyncOperationAborted correlationId t) r = Inr (completeKnown correlationId None r)"
  by (simp add: notifyOf_def)

lemma notifyOf_AsyncOperationFailed [simp]:
  "notifyOf x (AsyncOperationFailed e correlationId t) r =
     Inr (completeKnown correlationId (Some e) r)"
  by (simp add: notifyOf_def)

lemma notifyOf_InteractionFinished [simp]:
  "notifyOf x (InteractionFinished activityId details outcome) r =
     activityFinished activityId outcome r"
  by (simp add: notifyOf_def split: sum.splits)

lemma notifyOf_TaskFinished [simp]:
  "notifyOf x (TaskFinished activityId details outcome) r = activityFinished activityId outcome r"
  by (simp add: notifyOf_def split: sum.splits)

lemma notifyOf_ActivityRelatedArtifactGenerated [simp]:
  "notifyOf x (ActivityRelatedArtifactGenerated activityId name artifact) r =
     (case artifact of
        Photo base64EncodedValue \<Rightarrow> photoGenerated x name base64EncodedValue r
      | OtherArtifact a \<Rightarrow> Inr r)"
  by (cases artifact) (simp_all add: notifyOf_def split: sum.splits)

lemma notifyOf_SceneTagged [simp]:
  "notifyOf x (SceneTagged tag) r =
     Inr (r\<lparr>testInfo := (testInfo r)
            \<lparr>annotations := annotations (testInfo r) @ [(tagType tag, tagName tag)]\<rparr>\<rparr>)"
  by (simp add: notifyOf_def)

lemma notifyOf_OtherEvent [simp]: "notifyOf x (OtherEvent e) r = Inr r"
  by (simp add: notifyOf_def)

subsection \<open>Terminal events for unknown ids\<close>

text \<open>
  The terminal events of async operations are guarded by \<open>this.steps.has\<close>: for an id
  that is not a key of the map, the notification changes nothing and does not fail.
\<close>

lemma async_terminal_unknown_ignored:
  assumes "steps r correlationId = None"
  shows "notifyOf x (AsyncOperationCompleted correlationId t) r = Inr r"
    and "notifyOf x (AsyncOperationAborted correlationId t) r = Inr r"
    and "notifyOf x (AsyncOperationFailed e correlationId t) r = Inr r"
  using assms by (simp_all add: completeKnown_def)

text \<open>
  C2. A terminal event whose id is not a key of the steps map is to be ignored. The
  branch of \<open>InteractionFinished\<close> and \<open>TaskFinished\<close> has no such guard: for an id
  that is not a key of the map, the notification of either throws a \<open>TypeError\<close>,
  whatever the details and the outcome.
\<close>

theorem finished_unknown_id_throws:
  assumes "steps r activityId = None"
  shows "notifyOf x (InteractionFinished activityId details outcome) r
           = Inl (TypeError ''Cannot read properties of undefined (reading complete)'')
       \<and> notifyOf x (TaskFinished activityId details outcome) r
           = Inl (TypeError ''Cannot read properties of undefined (reading complete)'')"
  using assms by (simp add: activityFinished_def)

theorem finished_unknown_id_throws_witness:
  "run
     [Notified exampleExternals (TaskStarts ''a1'' exampleDetails),
      Notified exampleExternals (InteractionFinished ''b2'' exampleDetails ExecutionSuccessful)]
     (newReporter None)
   = Inl (TypeError ''Cannot read properties of undefined (reading complete)'')"
proof -
  have unknown: "steps (setStep ''a1'' exampleDetails ''task'' (newReporter None)) ''b2'' = None"
    by (simp add: setStep_def createStep_def newReporter_def)
  show ?thesis
    using finished_unknown_id_throws [OF unknown, of exampleExternals exampleDetails
        ExecutionSuccessful]
    by simp
qed

subsection \<open>Attaching a photo\<close>

text \<open>
  C3. The failure of the attachment is to be announced as \<open>AsyncOperationFailed\<close>. When
  a new reporter with a stage is notified of a generated \<open>Photo\<close> and the promise of
  \<open>testInfo.attach\<close> rejects with an error \<open>e\<close>, the run ends with
  \<open>AsyncOperationAttempted\<close> announced and nothing else: no promise is left pending,
  no further event is announced, and \<open>e\<close> is left as an unhandled rejection.
\<close>

theorem attach_rejection_unreported:
  "run
     [Notified x (ActivityRelatedArtifactGenerated activityId name (Photo base64)),
      Settled 0 (Rejected e)]
     (newReporter (Some s))
   = Inr ((newReporter
            (Some (s\<lparr>announced := announced s @
               [AsyncOperationAttempted reporterName
                  (''Attaching screenshot of '' @ singleQuote @ name @ singleQuote @ ''...'')
                  (createdId x) (currentTime s)]\<rparr>)))
          \<lparr>unhandledRejections := [e]\<rparr>)"
  by (simp add: photoGenerated_def newReporter_def attachSettled_def announce_def)



subsection \<open>The order of the announcements in any run\<close>

text \<open>
  Whatever the reporter is notified of and whichever promises settle, in whatever order:
  if no notification throws, every \<open>AsyncOperationCompleted\<close> in the stage's log still
  comes after an \<open>AsyncOperationAttempted\<close> with its id.
\<close>

lemma attemptedIds_append:
  "attemptedIds (es @ fs) = attemptedIds es @ attemptedIds fs"
  by (induction es rule: attemptedIds.induct) simp_all

lemma completedAfterAttempted_append:
  "completedAfterAttempted seen (es @ fs) \<longleftrightarrow>
     completedAfterAttempted seen es \<and> completedAfterAttempted (rev (attemptedIds es) @ seen) fs"
  by (induction seen es rule: completedAfterAttempted.induct) simp_all

lemma stage_setStep: "stage (setStep c d ty r) = stage r"
  by (simp add: setStep_def createStep_def)

lemma pending_setStep: "pendingAttachments (setStep c d ty r) = pendingAttachments r"
  by (simp add: setStep_def createStep_def)

lemma inOrder_setStep: "inOrder (setStep c d ty r) = inOrder r"
  by (simp add: inOrder_def stage_setStep pending_setStep cong: option.case_cong)

lemma inOrder_testInfo: "inOrder (r\<lparr>testInfo := ti\<rparr>) = inOrder r"
  by (simp add: inOrder_def cong: option.case_cong)

lemma inOrder_new: "inOrder (newReporter None)"
  by (simp add: inOrder_def newReporter_def)

lemma inOrder_new_stage:
  "completedAfterAttempted [] (announced s) \<Longrightarrow> inOrder (newReporter (Some s))"
  by (simp add: inOrder_def newReporter_def)

lemma inOrder_photoGenerated:
  assumes "inOrder r" and "photoGenerated x name base64 r = Inr r'"
  shows "inOrder r'"
proof (cases "stage r")
  case None
  then show ?thesis using assms by (simp add: photoGenerated_def)
next
  case (Some s)
  then show ?thesis
    using assms
    by (auto simp: photoGenerated_def inOrder_def announce_def completedAfterAttempted_append
        attemptedIds_append list_all_iff)
qed

lemma inOrder_notifyOf:
  assumes "inOrder r" and "notifyOf x event r = Inr r'"
  shows "inOrder r'"
proof (cases event)
  case (ActivityRelatedArtifactGenerated activityId name artifact)
  then show ?thesis
    using assms by (cases artifact) (auto intro: inOrder_photoGenerated)
next
  case (AsyncOperationAttempted name eventDescription correlationId t)
  then show ?thesis
    using assms by (auto simp: inOrder_setStep split: if_splits)
next
  case (SceneTagged tag)
  then show ?thesis
    using assms by (auto simp: inOrder_testInfo)
qed (use assms in \<open>auto simp: inOrder_setStep inOrder_testInfo completeKnown_def
      activityFinished_def split: option.splits Outcome.splits\<close>)

lemma inOrder_attachSettled:
  assumes "inOrder r"
  shows "inOrder (attachSettled k outcome r)"
proof (cases "k < length (pendingAttachments r)")
  case False
  then show ?thesis using assms by (simp add: attachSettled_def)
next
  case True
  have rest: "set (take k (pendingAttachments r) @ drop (Suc k) (pendingAttachments r))
      \<subseteq> set (pendingAttachments r)"
    by (auto dest: in_set_takeD in_set_dropD)
  have kth: "pendingAttachments r ! k \<in> set (pendingAttachments r)"
    using True by simp
  show ?thesis
  proof (cases "stage r")
    case None
    then show ?thesis
      using assms True by (simp add: inOrder_def)
  next
    case (Some s)
    then show ?thesis
      using assms True rest kth
      by (cases outcome)
        (auto simp: inOrder_def attachSettled_def Let_def announce_def
          completedAfterAttempted_append attemptedIds_append list_all_iff)
  qed
qed

lemma inOrder_run:
  assumes "inOrder r" and "run hs r = Inr r'"
  shows "inOrder r'"
  using assms
proof (induction hs arbitrary: r)
  case Nil
  then show ?case by simp
next
  case (Cons h hs)
  then show ?case
    by (cases h) (auto split: sum.splits intro: inOrder_notifyOf inOrder_attachSettled)
qed

lemma completed_never_before_attempted:
  assumes "completedAfterAttempted [] (announced s)"
    and "run hs (newReporter (Some s)) = Inr r'"
    and "stage r' = Some s'"
  shows "completedAfterAttempted [] (announced s')"
  using inOrder_run [OF inOrder_new_stage [OF assms(1)] assms(2)] assms(3)
  by (simp add: inOrder_def)

subsection \<open>The steps map\<close>

lemma steps_setStep:
  "steps (setStep correlationId activityDetails type r)
     = (steps r)(correlationId \<mapsto> length (addedSteps (testInfo r)))"
  by (simp add: setStep_def createStep_def)

lemma steps_attachSettled: "steps (attachSettled k outcome r) = steps r"
  by (simp add: attachSettled_def Let_def split: AttachOutcome.splits option.splits)

text \<open>
  C4, as the claim states it: the record under an id is removed by the matching terminal
  event. It is not: after \<open>TaskStarts\<close> and \<open>TaskFinished\<close> with the id \<open>a1\<close>, the map
  still has the step under \<open>a1\<close>.
\<close>

theorem steps_kept_after_terminal_event:
  "stepUnder ''a1''
     (run
        [Notified exampleExternals (TaskStarts ''a1'' exampleDetails),
         Notified exampleExternals (TaskFinished ''a1'' exampleDetails ExecutionSuccessful)]
        (newReporter None))
   = Some 0"
  by (simp add: stepUnder_def setStep_def createStep_def activityFinished_def newReporter_def
      complete_def)

lemma notifyOf_terminal:
  assumes "notifyOf x event r = Inr r'" and "terminalId event = Some correlationId"
  shows "r' = r\<lparr>testInfo :=
           (case steps r correlationId of
              None \<Rightarrow> testInfo r
            | Some step \<Rightarrow> complete step (terminalResult event) (testInfo r))\<rparr>"
proof (cases event)
  case (TaskFinished activityId details outcome)
  then show ?thesis
    using assms by (cases outcome) (auto simp: activityFinished_def split: option.splits)
next
  case (InteractionFinished activityId details outcome)
  then show ?thesis
    using assms by (cases outcome) (auto simp: activityFinished_def split: option.splits)
qed (use assms in \<open>auto simp: completeKnown_def split: option.splits\<close>)

lemma notifyOf_started:
  assumes "notifyOf x event r = Inr r'" and "startedId event = Some correlationId"
  shows "steps r' = (steps r)(correlationId \<mapsto> length (addedSteps (testInfo r)))
       \<and> (\<exists>step. addedSteps (testInfo r') = addedSteps (testInfo r) @ [step]
             \<and> completions step = [])"
proof (cases event)
  case (AsyncOperationAttempted name eventDescription cid t)
  then show ?thesis
    using assms by (auto simp: setStep_def createStep_def split: if_splits)
qed (use assms in \<open>auto simp: setStep_def createStep_def\<close>)

lemma notifyOf_not_started:
  assumes "notifyOf x event r = Inr r'" and "startedId event = None"
  shows "steps r' = steps r"
proof (cases event)
  case (AsyncOperationAttempted name eventDescription cid t)
  then show ?thesis
    using assms by (auto split: if_splits)
next
  case (ActivityRelatedArtifactGenerated activityId name artifact)
  then show ?thesis
    using assms by (auto simp: photoGenerated_def split: Artifact.splits option.splits)
qed (use assms in \<open>auto simp: completeKnown_def activityFinished_def
      split: option.splits Outcome.splits\<close>)

text \<open>
  C4, amended. No event removes a record from the steps map: every id that is a key
  before a notification is a key after it. A terminal event changes nothing but the
  test's steps, where it calls \<open>complete\<close>, with the error the event carries if any, on
  the step the record under its id refers to (and does nothing for an async operation
  whose id is no key); the map is as before. The map changes only for \<open>TaskStarts\<close>,
  \<open>InteractionStarts\<close> and the \<open>AsyncOperationAttempted\<close> of a Photographer: the record
  under the event's id is set to the step that this notification creates, which is
  appended, not yet completed, to the test's steps.
\<close>

theorem steps_are_kept:
  assumes "notifyOf x event r = Inr r'"
  shows "dom (steps r) \<subseteq> dom (steps r')
       \<and> (\<forall>correlationId. terminalId event = Some correlationId \<longrightarrow>
            r' = r\<lparr>testInfo :=
                   (case steps r correlationId of
                      None \<Rightarrow> testInfo r
                    | Some step \<Rightarrow> complete step (terminalResult event) (testInfo r))\<rparr>)
       \<and> (\<forall>correlationId. startedId event = Some correlationId \<longrightarrow>
            steps r' = (steps r)(correlationId \<mapsto> length (addedSteps (testInfo r)))
            \<and> (\<exists>step. addedSteps (testInfo r') = addedSteps (testInfo r) @ [step]
                  \<and> completions step = []))
       \<and> (startedId event = None \<longrightarrow> steps r' = steps r)"
proof (intro conjI allI impI)
  show "dom (steps r) \<subseteq> dom (steps r')"
  proof (cases "startedId event")
    case None
    then show ?thesis using notifyOf_not_started [OF assms] by simp
  next
    case (Some correlationId)
    then show ?thesis using notifyOf_started [OF assms] by auto
  qed
next
  fix correlationId
  assume "terminalId event = Some correlationId"
  then show "r' = r\<lparr>testInfo :=
                   (case steps r correlationId of
                      None \<Rightarrow> testInfo r
                    | Some step \<Rightarrow> complete step (terminalResult event) (testInfo r))\<rparr>"
    using assms by (rule notifyOf_terminal [rotated])
next
  fix correlationId
  assume s: "startedId event = Some correlationId"
  show "steps r' = (steps r)(correlationId \<mapsto> length (addedSteps (testInfo r)))"
    using notifyOf_started [OF assms s] by simp
  show "\<exists>step. addedSteps (testInfo r') = addedSteps (testInfo r) @ [step]
                  \<and> completions step = []"
    using notifyOf_started [OF assms s] by simp
next
  assume "startedId event = None"
  then show "steps r' = steps r"
    using assms by (rule notifyOf_not_started [rotated])
qed

theorem steps_are_kept_witness:
  "run
     [Notified exampleExternals (TaskStarts ''a1'' exampleDetails),
      Notified exampleExternals (TaskFinished ''a1'' exampleDetails ExecutionSuccessful)]
     (newReporter None)
   = Inr ((newReporter None)
       \<lparr> steps := [''a1'' \<mapsto> 0],
         testInfo :=
           \<lparr> addedSteps =
               [\<lparr> title = ''Alice dials'', category = ''serenity-js:task'',
                  canHaveChildren = True, forceNoParent = False, location = None,
                  completions = [None] \<rparr>],
             attachments = [], annotations = [] \<rparr> \<rparr>)"
proof -
  have started: "notifyOf exampleExternals (TaskStarts ''a1'' exampleDetails) (newReporter None)
      = Inr (setStep ''a1'' exampleDetails ''task'' (newReporter None))"
    by simp
  have finished: "notifyOf exampleExternals (TaskFinished ''a1'' exampleDetails ExecutionSuccessful)
      (setStep ''a1'' exampleDetails ''task'' (newReporter None))
      = Inr ((setStep ''a1'' exampleDetails ''task'' (newReporter None))
         \<lparr>testInfo := complete 0 None
            (testInfo (setStep ''a1'' exampleDetails ''task'' (newReporter None)))\<rparr>)"
    by (simp add: activityFinished_def setStep_def createStep_def newReporter_def)
  show ?thesis
    using steps_are_kept [OF started] steps_are_kept [OF finished]
    by (simp add: activityFinished_def setStep_def createStep_def newReporter_def complete_def
        exampleDetails_def)
qed

section \<open>Properties of the abilities and of the Photographer\<close>

text \<open>
  C9. \<open>BrowseTheWeb.as(actor)\<close> gives the ability registered with the actor for the
  capability \<open>BrowseTheWeb\<close>; with none registered it fails with the "ability not found"
  error, which names the capability and the actor.
\<close>

theorem BrowseTheWeb_as_registered_or_not_found:
  "(\<forall>ability. abilities actor ''BrowseTheWeb'' = Some ability \<longrightarrow>
       BrowseTheWeb_as actor = Inr ability)
   \<and> (abilities actor ''BrowseTheWeb'' = None \<longrightarrow>
       BrowseTheWeb_as actor = Inl (AbilityNotFound ''BrowseTheWeb'' (actorName actor)))"
  by (simp add: BrowseTheWeb_as_def abilityTo_def)

theorem BrowseTheWeb_as_registered_or_not_found_witness:
  "BrowseTheWeb_as exampleActor = Inr exampleBrowser
   \<and> BrowseTheWeb_as (exampleActor\<lparr>actorName := ''Bob'', abilities := Map.empty\<rparr>)
       = Inl (AbilityNotFound ''BrowseTheWeb'' ''Bob'')"
  using BrowseTheWeb_as_registered_or_not_found [of exampleActor]
    BrowseTheWeb_as_registered_or_not_found
      [of "exampleActor\<lparr>actorName := ''Bob'', abilities := Map.empty\<rparr>"]
  by (simp add: exampleActor_def)

lemma takeAPictureOf_screenshot:
  assumes "BrowseTheWeb_as actor = Inr browser" and "takeScreenshot browser = Inr data"
  shows "takeAPictureOf hashStr outlet actor step =
         (map_sum id (Screenshot step) (stored outlet (hashStr data @ ''.png'') data),
          outlet\<lparr>sent := sent outlet @ [(hashStr data @ ''.png'', data)]\<rparr>)"
  using assms
  by (simp add: takeAPictureOf_def saveScreenshot_def sendPicture_def filenameFor_def
      split: sum.splits)

text \<open>
  C7. For a screenshot \<open>data\<close> the actor's browser has taken, \<open>takeAPictureOf\<close> sends
  it to the outlet once, under the file name \<open>Md5.hashStr(data) + '.png'\<close>, and gives
  the \<open>Screenshot\<close> of the step and of the path the outlet answers with (or the outlet's
  rejection). The file name depends on the data alone: another capture of the same data,
  by any actor, for any step and through any outlet, is sent under the same name.
\<close>

theorem takeAPictureOf_content_addressed:
  assumes "BrowseTheWeb_as actor = Inr browser" and "takeScreenshot browser = Inr data"
  shows "sent (snd (takeAPictureOf hashStr outlet actor step))
           = sent outlet @ [(hashStr data @ ''.png'', data)]
       \<and> fst (takeAPictureOf hashStr outlet actor step)
           = map_sum id (Screenshot step) (stored outlet (hashStr data @ ''.png'') data)
       \<and> (\<forall>actor' browser' outlet' step'.
             BrowseTheWeb_as actor' = Inr browser' \<and> takeScreenshot browser' = Inr data \<longrightarrow>
             fst (last (sent (snd (takeAPictureOf hashStr outlet' actor' step'))))
               = fst (last (sent (snd (takeAPictureOf hashStr outlet actor step)))))"
  using assms by (simp add: takeAPictureOf_screenshot)

theorem takeAPictureOf_content_addressed_witness:
  "takeAPictureOf (\<lambda>data. ''0f'') exampleOutlet exampleActor (3::nat)
     = (Inr (Screenshot 3 ''target/0f.png''),
        exampleOutlet\<lparr>sent := [(''0f.png'', ''png-bytes'')]\<rparr>)"
proof -
  have a: "BrowseTheWeb_as exampleActor = Inr exampleBrowser"
    by (simp add: BrowseTheWeb_as_def abilityTo_def exampleActor_def)
  have b: "takeScreenshot exampleBrowser = Inr ''png-bytes''"
    by (simp add: exampleBrowser_def)
  show ?thesis
    using takeAPictureOf_content_addressed [OF a b, of "\<lambda>data. ''0f''" exampleOutlet "3::nat"]
    by (simp add: prod_eq_iff exampleOutlet_def takeAPictureOf_screenshot [OF a b])
qed

end
